theory Spec2Isabelle
  imports Main
begin

section \<open>Values, errors and the response object\<close>

text \<open>
  The handlers of \<^verbatim>\<open>src/app.ts\<close> build their bodies as object literals whose
  fields are booleans, numbers and strings. A body is the list of its fields in the order
  they are written.
\<close>

datatype json = JBool bool | JNum int | JStr string

type_synonym body = "(string \<times> json) list"

text \<open>A JavaScript error value; the code only ever reads its \<^verbatim>\<open>message\<close>.\<close>

datatype js_error = JsError (message: string)

text \<open>
  The state that one request threads through the middleware chain: the files on disk
  (path to contents), Express's response object \<^verbatim>\<open>res\<close> (the status code that
  the next send will use, and the responses sent so far, each with the status code it went
  out with), and whether the Node process has exited on an uncaught exception.
\<close>

record state =
  files :: "string \<rightharpoonup> string"
  statusCode :: nat
  sent :: "(nat \<times> body) list"
  exited :: bool

text \<open>A fresh response object has status code 200 and nothing sent; the process runs.\<close>

definition new_res :: "(string \<rightharpoonup> string) \<Rightarrow> state" where
  "new_res fs = \<lparr>files = fs, statusCode = 200, sent = [], exited = False\<rparr>"

text \<open>\<^verbatim>\<open>res.status(code)\<close> sets the status code and returns \<^verbatim>\<open>res\<close>.\<close>

definition res_status :: "nat \<Rightarrow> state \<Rightarrow> state" where
  "res_status code res = res\<lparr>statusCode := code\<rparr>"

text \<open>\<^verbatim>\<open>res.send(obj)\<close> (and \<^verbatim>\<open>res.json(obj)\<close>) sends the object as JSON under the
  current status code.\<close>

definition res_send :: "body \<Rightarrow> state \<Rightarrow> state" where
  "res_send b res = res\<lparr>sent := sent res @ [(statusCode res, b)]\<rparr>"

text \<open>
  An exception that no \<^verbatim>\<open>try\<close> of the running request encloses: Node prints it and the
  process exits. Nothing more is sent; the files stay as they are.
\<close>

definition process_exit :: "state \<Rightarrow> state" where
  "process_exit s = s\<lparr>exited := True\<rparr>"

section \<open>Upload Receiver\<close>

text \<open>
  What Multer knows of a file part when it calls the file filter and the storage callbacks
  (\<^verbatim>\<open>file.originalname\<close>, \<^verbatim>\<open>file.mimetype\<close>); an incoming part of the multipart
  field \<^verbatim>\<open>file\<close> adds the bytes that follow; the file Multer attaches as
  \<^verbatim>\<open>req.file\<close> adds what the disk storage reports.
\<close>

record file_info =
  originalname :: string
  mimetype :: string

record upload_part = file_info +
  content :: string

record multer_file = file_info +
  destination :: string
  filename :: string
  path :: string
  size_bytes :: nat

text \<open>
  The process-wide configuration: \<^verbatim>\<open>tempDir = os.tmpdir()\<close> (line 58), and Node's
  \<^verbatim>\<open>path.join\<close>, with which the disk storage builds the stored path.
\<close>

record env =
  tempDir :: string
  path_join :: "string \<Rightarrow> string \<Rightarrow> string"

text \<open>Lines 59 to 66: the storage callbacks. \<^verbatim>\<open>cb(null, x)\<close> is \<open>Inr x\<close>.\<close>

definition storage_destination :: "env \<Rightarrow> 'a file_info_scheme \<Rightarrow> js_error + string" where
  "storage_destination e file = Inr (tempDir e)"

definition storage_filename :: "'a file_info_scheme \<Rightarrow> js_error + string" where
  "storage_filename file = Inr (originalname file)"

text \<open>Lines 68 to 81: the file filter. \<^verbatim>\<open>cb(null, true)\<close> accepts, \<^verbatim>\<open>cb(null, false)\<close>
  skips the file; the rejecting \<^verbatim>\<open>cb(new Error(...))\<close> is commented out.\<close>

definition allowedTypes :: "string list" where
  "allowedTypes = [''image/jpeg'', ''image/png'']"

definition fileFilter :: "'a file_info_scheme \<Rightarrow> js_error + bool" where
  "fileFilter file =
     (if mimetype file \<in> set allowedTypes then Inr True else Inr False)"

text \<open>Line 85: \<^verbatim>\<open>limits.fileSize\<close>.\<close>

definition fileSize :: nat where
  "fileSize = 5 * 1024 * 1024"

text \<open>
  Multer's disk storage, as configured on lines 59 to 66: it asks the two callbacks for the
  directory and the name, joins them and streams the part to that path. When the part is
  longer than \<^verbatim>\<open>limits.fileSize\<close> the upload is aborted with Multer's
  \<^verbatim>\<open>LIMIT_FILE_SIZE\<close> error (message \<^verbatim>\<open>File too large\<close>) and the truncated file
  is unlinked. Disk writes themselves are taken to succeed. The limit is read as the
  documented maximum: how a part of exactly \<^verbatim>\<open>fileSize\<close> bytes fares depends on the
  version of the multipart parser, and no property below rests on that case.
\<close>

definition handleFile :: "env \<Rightarrow> upload_part \<Rightarrow> state \<Rightarrow> (js_error + multer_file) \<times> state" where
  "handleFile e p s =
     (case storage_destination e p of
        Inl err \<Rightarrow> (Inl err, s)
      | Inr d \<Rightarrow>
          (case storage_filename p of
             Inl err \<Rightarrow> (Inl err, s)
           | Inr n \<Rightarrow>
               (let finalPath = path_join e d n in
                if fileSize < length (content p)
                then (Inl (JsError ''File too large''),
                      s\<lparr>files := (files s)(finalPath := None)\<rparr>)
                else (Inr \<lparr>originalname = originalname p, mimetype = mimetype p,
                           destination = d, filename = n, path = finalPath,
                           size_bytes = length (content p)\<rparr>,
                      s\<lparr>files := (files s)(finalPath \<mapsto> content p)\<rparr>))))"

text \<open>
  \<^verbatim>\<open>upload.single('file')\<close> (lines 82 to 88 and 153) on the part of the multipart
  field \<^verbatim>\<open>file\<close>, if the request has one. Multer ignores a part without a file name,
  asks the file filter, skips the part when the filter says \<^verbatim>\<open>false\<close> (its bytes are
  drained, no error), and otherwise stores it. The result is \<open>Inl err\<close> for
  \<^verbatim>\<open>next(err)\<close> and \<open>Inr f\<close> for \<^verbatim>\<open>next()\<close> with \<^verbatim>\<open>req.file = f\<close>.
\<close>

definition upload_single ::
  "env \<Rightarrow> upload_part option \<Rightarrow> state \<Rightarrow> (js_error + multer_file option) \<times> state" where
  "upload_single e part s =
     (case part of
        None \<Rightarrow> (Inr None, s)
      | Some p \<Rightarrow>
          if originalname p = [] then (Inr None, s)
          else
            (case fileFilter p of
               Inl err \<Rightarrow> (Inl err, s)
             | Inr includeFile \<Rightarrow>
                 if \<not> includeFile then (Inr None, s)
                 else
                   (case handleFile e p s of
                      (Inl err, s') \<Rightarrow> (Inl err, s')
                    | (Inr f, s') \<Rightarrow> (Inr (Some f), s'))))"

section \<open>Extraction Adapter\<close>

text \<open>
  What an awaited call can do to the code that awaits it: its promise resolves with a
  value, its promise rejects with an error (the \<^verbatim>\<open>await\<close> throws it, and an enclosing
  \<^verbatim>\<open>try\<close> catches it), or an error is thrown outside the promise, on a call stack of
  the callee's own, where no \<^verbatim>\<open>try\<close> of the caller encloses it.
\<close>

datatype 'a outcome = Resolved 'a | Rejected js_error | Uncaught js_error

text \<open>The awaited call settles when the code that awaits it goes on, one way or the other.\<close>

definition settles :: "'a outcome \<Rightarrow> bool" where
  "settles r = (case r of Resolved v \<Rightarrow> True | Rejected e \<Rightarrow> True | Uncaught e \<Rightarrow> False)"

text \<open>
  \<^verbatim>\<open>extractTextFromImage\<close> (lines 99 to 112) returns the recognized text or the
  boolean \<^verbatim>\<open>false\<close>. The engine call \<^verbatim>\<open>Tesseract.recognize(imagePath, 'eng', ...)\<close>
  is a parameter. Lines 103 to 105 pass it a \<^verbatim>\<open>logger\<close> and no
  \<^verbatim>\<open>errorHandler\<close>, and without one the engine throws a failure that its worker
  reports (an image it cannot decode, for one) from its own message handler: that is
  \<open>Uncaught\<close>, and the \<^verbatim>\<open>catch\<close> of line 107 never sees it. A failure that only
  rejects the promise is \<open>Rejected\<close>.
\<close>

datatype ocr_result = Text string | JsFalse

definition extractTextFromImage ::
  "(string \<Rightarrow> string outcome) \<Rightarrow> string \<Rightarrow> ocr_result outcome" where
  "extractTextFromImage recognize imagePath =
     (case recognize imagePath of
        Resolved text \<Rightarrow> Resolved (Text text)
      | Rejected error \<Rightarrow> Resolved JsFalse
      | Uncaught error \<Rightarrow> Uncaught error)"

text \<open>JavaScript's \<^verbatim>\<open>!v\<close> on such a value: \<^verbatim>\<open>false\<close> and the empty string are falsy.\<close>

definition js_not :: "ocr_result \<Rightarrow> bool" where
  "js_not v = (case v of JsFalse \<Rightarrow> True | Text t \<Rightarrow> t = [])"

definition to_json :: "ocr_result \<Rightarrow> json" where
  "to_json v = (case v of JsFalse \<Rightarrow> JBool False | Text t \<Rightarrow> JStr t)"

section \<open>Request Handler\<close>

definition no_file_body :: body where
  "no_file_body =
     [(''success'', JBool False),
      (''message'', JStr ''No file uploaded. Only jpg and png types accepted'')]"

definition unknown_error_body :: body where
  "unknown_error_body =
     [(''success'', JBool False), (''message'', JStr ''Unknown error occured'')]"

definition success_body :: "json \<Rightarrow> body" where
  "success_body d =
     [(''success'', JBool True), (''message'', JStr ''Image text extracted successfully''),
      (''data'', d)]"

text \<open>
  The handler of lines 154 to 181, with the awaited call of line 165 as the parameter
  \<open>extract\<close>, so that the \<^verbatim>\<open>catch\<close> of lines 176 to 180 is a branch: \<open>Rejected e\<close> is
  the call throwing \<open>e\<close> at the \<^verbatim>\<open>await\<close>. On \<open>Uncaught e\<close> the handler never
  resumes: the process exits with the request unanswered.
\<close>

definition extract_text_handler_with ::
  "(string \<Rightarrow> ocr_result outcome) \<Rightarrow> multer_file option \<Rightarrow> state \<Rightarrow> state" where
  "extract_text_handler_with extract file res =
     (case file of
        None \<Rightarrow> res_send no_file_body (res_status 400 res)
      | Some f \<Rightarrow>
          (let filePath = path f in
           case extract filePath of
             Rejected e \<Rightarrow> res_send unknown_error_body (res_status 400 res)
           | Uncaught e \<Rightarrow> process_exit res
           | Resolved extractedText \<Rightarrow>
               if js_not extractedText
               then res_send unknown_error_body (res_status 400 res)
               else res_send (success_body (to_json extractedText)) res))"

text \<open>The handler as the source has it: the call is \<^verbatim>\<open>extractTextFromImage\<close>.\<close>

definition extract_text_handler ::
  "(string \<Rightarrow> string outcome) \<Rightarrow> multer_file option \<Rightarrow> state \<Rightarrow> state" where
  "extract_text_handler recognize =
     extract_text_handler_with (extractTextFromImage recognize)"

text \<open>Lines 263 to 271: the error middleware, which Express runs on \<^verbatim>\<open>next(err)\<close>.\<close>

definition error_middleware :: "js_error \<Rightarrow> state \<Rightarrow> state" where
  "error_middleware err res =
     res_send [(''success'', JBool False), (''status'', JNum 500),
               (''message'', JStr (message err))]
       (res_status 500 res)"

text \<open>
  \<^verbatim>\<open>POST /extract-text\<close> (lines 151 to 182): the upload middleware, then the handler,
  or the error middleware when the upload middleware passes an error on.
\<close>

definition post_extract_text ::
  "env \<Rightarrow> (string \<Rightarrow> string outcome) \<Rightarrow> upload_part option \<Rightarrow>
   (string \<rightharpoonup> string) \<Rightarrow> state" where
  "post_extract_text e recognize part fs =
     (case upload_single e part (new_res fs) of
        (Inl err, s) \<Rightarrow> error_middleware err s
      | (Inr file, s) \<Rightarrow> extract_text_handler recognize file s)"

section \<open>Auxiliary endpoint\<close>

text \<open>
  \<^verbatim>\<open>GET /api\<close> (lines 214 to 225). The outbound \<^verbatim>\<open>axios.get(baseURL)\<close> is a
  parameter: \<open>Inr n\<close> when it resolves with \<^verbatim>\<open>result.status = n\<close>, \<open>Inl error\<close> when
  it rejects.
\<close>

definition get_api :: "js_error + int \<Rightarrow> state \<Rightarrow> state" where
  "get_api result res =
     (case result of
        Inr st \<Rightarrow>
          res_send [(''message'', JStr ''Demo API called (httpbin.org)''), (''data'', JNum st)]
            res
      | Inl error \<Rightarrow>
          res_send [(''error'', JStr ''Failed to call external API'')] (res_status 500 res))"

section \<open>Concrete requests\<close>

text \<open>
  A configuration and a few uploads on which the properties below are evaluated: a POSIX
  temporary directory, a small PNG, a PDF, a PNG and a JPEG one byte over the size limit,
  a file of type \<^verbatim>\<open>image/png\<close> whose bytes are no image, and the \<^verbatim>\<open>req.file\<close> that
  the small PNG becomes.
\<close>

definition example_env :: env where
  "example_env = \<lparr>tempDir = ''/tmp'', path_join = (\<lambda>d n. d @ ''/'' @ n)\<rparr>"

definition photo_png :: upload_part where
  "photo_png = \<lparr>originalname = ''photo.png'', mimetype = ''image/png'', content = ''PNG''\<rparr>"

definition notes_pdf :: upload_part where
  "notes_pdf = \<lparr>originalname = ''notes.pdf'', mimetype = ''application/pdf'', content = ''PDF''\<rparr>"

definition big_png :: upload_part where
  "big_png = \<lparr>originalname = ''big.png'', mimetype = ''image/png'',
               content = replicate (5 * 1024 * 1024 + 1) CHR ''x''\<rparr>"

definition big_jpeg :: upload_part where
  "big_jpeg = \<lparr>originalname = ''big.jpg'', mimetype = ''image/jpeg'',
                content = replicate (5 * 1024 * 1024 + 1) CHR ''x''\<rparr>"

definition corrupt_png :: upload_part where
  "corrupt_png = \<lparr>originalname = ''corrupt.png'', mimetype = ''image/png'',
                   content = ''not an image''\<rparr>"

definition stored_photo :: multer_file where
  "stored_photo = \<lparr>originalname = ''photo.png'', mimetype = ''image/png'',
      destination = ''/tmp'', filename = ''photo.png'', path = ''/tmp/photo.png'',
      size_bytes = 3\<rparr>"

section \<open>The response object and the upload middleware\<close>

lemma sent_send_status:
  "sent (res_send b (res_status c s)) = sent s @ [(c, b)]"
  by (simp add: res_send_def res_status_def)

lemma sent_send:
  "sent (res_send b s) = sent s @ [(statusCode s, b)]"
  by (simp add: res_send_def)

lemma files_send_status [simp]:
  "files (res_send b (res_status c s)) = files s"
  by (simp add: res_send_def res_status_def)

lemma files_send [simp]:
  "files (res_send b s) = files s"
  by (simp add: res_send_def)

lemma new_res_simps [simp]:
  "files (new_res fs) = fs" "statusCode (new_res fs) = 200" "sent (new_res fs) = []"
  "exited (new_res fs) = False"
  by (simp_all add: new_res_def)

lemma res_status_simps [simp]:
  "files (res_status c s) = files s" "statusCode (res_status c s) = c"
  "sent (res_status c s) = sent s"
  by (simp_all add: res_status_def)

lemma process_exit_simps [simp]:
  "files (process_exit s) = files s" "sent (process_exit s) = sent s"
  "exited (process_exit s) = True"
  by (simp_all add: process_exit_def)

lemma fileFilter_result:
  "fileFilter file = Inr (mimetype file = ''image/jpeg'' \<or> mimetype file = ''image/png'')"
  by (auto simp add: fileFilter_def allowedTypes_def)

lemma upload_single_dropped:
  "mimetype p \<noteq> ''image/jpeg'' \<Longrightarrow> mimetype p \<noteq> ''image/png'' \<Longrightarrow>
   upload_single e (Some p) s = (Inr None, s)"
  by (simp add: upload_single_def fileFilter_result)

lemma upload_single_stored:
  "originalname p \<noteq> [] \<Longrightarrow> mimetype p = ''image/jpeg'' \<or> mimetype p = ''image/png'' \<Longrightarrow>
   \<not> fileSize < length (content p) \<Longrightarrow>
   upload_single e (Some p) s =
     (Inr (Some \<lparr>originalname = originalname p, mimetype = mimetype p,
                 destination = tempDir e, filename = originalname p,
                 path = path_join e (tempDir e) (originalname p),
                 size_bytes = length (content p)\<rparr>),
      s\<lparr>files := (files s)(path_join e (tempDir e) (originalname p) \<mapsto> content p)\<rparr>)"
  by (simp add: upload_single_def fileFilter_result handleFile_def
      storage_destination_def storage_filename_def Let_def)

lemma upload_single_too_large:
  "originalname p \<noteq> [] \<Longrightarrow> mimetype p = ''image/jpeg'' \<or> mimetype p = ''image/png'' \<Longrightarrow>
   fileSize < length (content p) \<Longrightarrow>
   upload_single e (Some p) s =
     (Inl (JsError ''File too large''),
      s\<lparr>files := (files s)(path_join e (tempDir e) (originalname p) := None)\<rparr>)"
  by (simp add: upload_single_def fileFilter_result handleFile_def
      storage_destination_def storage_filename_def Let_def)

lemma upload_single_cases:
  "upload_single e part s = (r, s') \<Longrightarrow>
   (r = Inr None \<and> s' = s) \<or>
   (\<exists>p. part = Some p \<and> originalname p \<noteq> [] \<and> mimetype p \<in> set allowedTypes \<and>
     ((fileSize < length (content p) \<and> r = Inl (JsError ''File too large'')) \<or>
      (\<not> fileSize < length (content p) \<and>
       (\<exists>f. r = Inr (Some f) \<and> path f = path_join e (tempDir e) (originalname p) \<and>
            destination f = tempDir e \<and> filename f = originalname p \<and>
            s' = s\<lparr>files := (files s)(path f \<mapsto> content p)\<rparr>))))"
  by (auto simp add: upload_single_def fileFilter_def handleFile_def
      storage_destination_def storage_filename_def Let_def split: option.splits if_splits)

lemma upload_single_res:
  "upload_single e part s = (r, s') \<Longrightarrow>
   sent s' = sent s \<and> statusCode s' = statusCode s \<and> exited s' = exited s"
  by (auto simp add: upload_single_def fileFilter_def handleFile_def
      storage_destination_def storage_filename_def Let_def split: option.splits if_splits)

lemma handler_files [simp]:
  "files (extract_text_handler_with extract file s) = files s"
  by (simp add: extract_text_handler_with_def Let_def split: option.splits outcome.splits)

lemma handler_sent_cases:
  "sent (extract_text_handler_with extract file s) =
     sent s @
     (case file of
        None \<Rightarrow> [(400, no_file_body)]
      | Some f \<Rightarrow>
          (case extract (path f) of
             Rejected e \<Rightarrow> [(400, unknown_error_body)]
           | Uncaught e \<Rightarrow> []
           | Resolved JsFalse \<Rightarrow> [(400, unknown_error_body)]
           | Resolved (Text t) \<Rightarrow>
               if t = [] then [(400, unknown_error_body)]
               else [(statusCode s, success_body (JStr t))]))"
  by (simp add: extract_text_handler_with_def Let_def sent_send_status sent_send js_not_def
      to_json_def split: option.splits outcome.splits ocr_result.splits)

lemma adapter_rejection_returns_false:
  "recognize imagePath = Rejected error \<Longrightarrow>
   extractTextFromImage recognize imagePath = Resolved JsFalse"
  by (simp add: extractTextFromImage_def)

lemma handler_text_200:
  "recognize (path f) = Resolved t \<Longrightarrow> t \<noteq> [] \<Longrightarrow>
   sent (extract_text_handler recognize (Some f) (new_res fs)) =
     [(200, [(''success'', JBool True), (''message'', JStr ''Image text extracted successfully''),
             (''data'', JStr t)])]"
  by (simp add: extract_text_handler_def handler_sent_cases extractTextFromImage_def
      success_body_def)

section \<open>The extraction pipeline\<close>

text \<open>
  Claim C1: when an upload is present and the adapter succeeds, the handler answers 200
  with the success envelope for every recognized text, the empty string included. On the
  code the empty string does not get there: the adapter returns it, \<^verbatim>\<open>!extractedText\<close>
  on line 166 is true for it as it is for the sentinel \<^verbatim>\<open>false\<close>, and the handler
  answers 400 with \<^verbatim>\<open>Unknown error occured\<close>. Evaluated on a PNG for which the engine
  recognizes no text (a non-empty text gets the success envelope, lemma
  \<open>handler_text_200\<close>).
\<close>

theorem C1_empty_text_answered_400:
  "sent (post_extract_text example_env (\<lambda>imagePath. Resolved '''') (Some photo_png) Map.empty) =
     [(400, [(''success'', JBool False), (''message'', JStr ''Unknown error occured'')])]"
  by (simp add: post_extract_text_def upload_single_stored example_env_def photo_png_def
      fileSize_def extract_text_handler_def handler_sent_cases extractTextFromImage_def
      unknown_error_body_def)



text \<open>
  Claim C3: on every engine failure (unreadable file, decoding error, internal engine
  fault) the adapter raises nothing and returns the sentinel \<^verbatim>\<open>false\<close>. The
  \<^verbatim>\<open>try\<close> and \<^verbatim>\<open>catch\<close> of lines 100 to 111 do that for a failure that rejects the
  awaited promise (lemma \<open>adapter_rejection_returns_false\<close>). They do not for a failure
  that the engine throws outside the promise, as it does on an image it cannot decode:
  evaluated on such an upload, the adapter returns no sentinel, the error escapes it, and
  the route ends with the process exited and no response sent.
\<close>

theorem C3_uncaught_engine_failure_escapes:
  "extractTextFromImage (\<lambda>imagePath. Uncaught (JsError ''Error attempting to read image.''))
     ''/tmp/corrupt.png'' = Uncaught (JsError ''Error attempting to read image.'')
   \<and> sent (post_extract_text example_env
        (\<lambda>imagePath. Uncaught (JsError ''Error attempting to read image.''))
        (Some corrupt_png) Map.empty) = []
   \<and> exited (post_extract_text example_env
        (\<lambda>imagePath. Uncaught (JsError ''Error attempting to read image.''))
        (Some corrupt_png) Map.empty)"
  by (simp add: post_extract_text_def upload_single_stored example_env_def corrupt_png_def
      fileSize_def extract_text_handler_def extract_text_handler_with_def
      extractTextFromImage_def)

text \<open>
  Claim C4: when no file is attached to the request (\<^verbatim>\<open>req.file\<close> is undefined), the
  handler responds with HTTP 400 and exactly the envelope
  \<^verbatim>\<open>{success:false, message:"No file uploaded. Only jpg and png types accepted"}\<close>,
  whatever the extraction would do.
\<close>

theorem C4_no_file_400:
  "sent (extract_text_handler_with extract None (new_res fs)) =
     [(400, [(''success'', JBool False),
             (''message'', JStr ''No file uploaded. Only jpg and png types accepted'')])]"
  by (simp add: extract_text_handler_with_def sent_send_status no_file_body_def)

text \<open>
  Claim C5: the file filter accepts a file if and only if its MIME type is exactly
  \<^verbatim>\<open>image/jpeg\<close> or \<^verbatim>\<open>image/png\<close>, and it never raises; an upload of any other
  type is skipped by the upload middleware without an error and without a change of state,
  so the handler runs with no file and the response is the "No file uploaded" 400 envelope.
\<close>

theorem C5_filter_accepts_jpeg_png_only:
  "(fileFilter p = Inr True \<longleftrightarrow> mimetype p = ''image/jpeg'' \<or> mimetype p = ''image/png'')
   \<and> (\<forall>err. fileFilter p \<noteq> Inl err)
   \<and> (mimetype p \<noteq> ''image/jpeg'' \<and> mimetype p \<noteq> ''image/png'' \<longrightarrow>
        fileFilter p = Inr False
        \<and> upload_single e (Some p) s = (Inr None, s)
        \<and> sent (post_extract_text e recognize (Some p) fs) =
            [(400, [(''success'', JBool False),
                    (''message'', JStr ''No file uploaded. Only jpg and png types accepted'')])])"
  by (simp add: fileFilter_result upload_single_dropped post_extract_text_def
      extract_text_handler_def handler_sent_cases no_file_body_def)

theorem C5_filter_accepts_jpeg_png_only_witness:
  "mimetype notes_pdf \<noteq> ''image/jpeg'' \<and> mimetype notes_pdf \<noteq> ''image/png''
   \<and> fileFilter notes_pdf = Inr False
   \<and> upload_single example_env (Some notes_pdf) (new_res Map.empty) =
       (Inr None, new_res Map.empty)
   \<and> sent (post_extract_text example_env (\<lambda>p. Resolved ''HELLO'') (Some notes_pdf) Map.empty) =
       [(400, [(''success'', JBool False),
               (''message'', JStr ''No file uploaded. Only jpg and png types accepted'')])]"
  using C5_filter_accepts_jpeg_png_only
    [of notes_pdf example_env "new_res Map.empty" "\<lambda>p. Resolved ''HELLO''" Map.empty]
  by (simp add: notes_pdf_def)

text \<open>
  Claim C6, as amended: a named upload of an accepted type that is longer than 5 MiB makes
  the upload middleware fail before the handler runs, and the error middleware answers
  with HTTP 500 and the JSON envelope
  \<^verbatim>\<open>{success:false, status:500, message:"File too large"}\<close>.
\<close>

theorem C6_too_large_answered_500:
  assumes "originalname p \<noteq> []"
    and "mimetype p = ''image/jpeg'' \<or> mimetype p = ''image/png''"
    and "fileSize < length (content p)"
  shows "fst (upload_single e (Some p) (new_res fs)) = Inl (JsError ''File too large'')
         \<and> sent (post_extract_text e recognize (Some p) fs) =
             [(500, [(''success'', JBool False), (''status'', JNum 500),
                     (''message'', JStr ''File too large'')])]"
  using assms
  by (simp add: post_extract_text_def upload_single_too_large error_middleware_def
      sent_send_status)

theorem C6_too_large_answered_500_witness:
  "originalname big_png \<noteq> []
   \<and> (mimetype big_png = ''image/jpeg'' \<or> mimetype big_png = ''image/png'')
   \<and> fileSize < length (content big_png)
   \<and> fst (upload_single example_env (Some big_png) (new_res Map.empty)) =
       Inl (JsError ''File too large'')
   \<and> sent (post_extract_text example_env (\<lambda>p. Rejected (JsError ''never called''))
        (Some big_png) Map.empty) =
       [(500, [(''success'', JBool False), (''status'', JNum 500),
               (''message'', JStr ''File too large'')])]"
  using C6_too_large_answered_500
    [of big_png example_env Map.empty "\<lambda>p. Rejected (JsError ''never called'')"]
  by (simp add: big_png_def fileSize_def)

text \<open>
  The claim as it was stated has such a request rejected with a transport-level error and
  no structured JSON envelope. For a PNG of 5 MiB and one byte the application does send
  one, through the error middleware of lines 263 to 271.
\<close>

theorem C6_too_large_counterexample:
  "sent (post_extract_text example_env (\<lambda>p. Resolved ''HELLO'') (Some big_png) Map.empty) =
     [(500, [(''success'', JBool False), (''status'', JNum 500),
             (''message'', JStr ''File too large'')])]"
  by (simp add: post_extract_text_def upload_single_too_large big_png_def fileSize_def
      error_middleware_def sent_send_status)

text \<open>
  Claim C7: an accepted upload is written into the one temporary directory under its
  original file name, so that a second accepted upload with the same name is stored at the
  same path (and replaces the contents of the first).
\<close>

theorem C7_stored_under_original_name:
  assumes "upload_single e (Some p) s = (Inr (Some f), s1)"
    and "upload_single e (Some q) s1 = (Inr (Some g), s2)"
    and "originalname q = originalname p"
  shows "destination f = tempDir e \<and> filename f = originalname p
         \<and> path f = path_join e (tempDir e) (originalname p)
         \<and> files s1 (path f) = Some (content p)
         \<and> path g = path f
         \<and> files s2 (path f) = Some (content q)"
proof -
  from upload_single_cases [OF assms(1)]
  have f: "destination f = tempDir e" "filename f = originalname p"
    "path f = path_join e (tempDir e) (originalname p)"
    "s1 = s\<lparr>files := (files s)(path f \<mapsto> content p)\<rparr>"
    by auto
  from upload_single_cases [OF assms(2)]
  have g: "path g = path_join e (tempDir e) (originalname q)"
    "s2 = s1\<lparr>files := (files s1)(path g \<mapsto> content q)\<rparr>"
    by auto
  from f g assms(3) show ?thesis by simp
qed

theorem C7_stored_under_original_name_witness:
  "upload_single example_env (Some photo_png) (new_res Map.empty) =
     (Inr (Some stored_photo), (new_res Map.empty)\<lparr>files := [''/tmp/photo.png'' \<mapsto> ''PNG'']\<rparr>)
   \<and> upload_single example_env (Some (photo_png\<lparr>content := ''OTHER''\<rparr>))
        ((new_res Map.empty)\<lparr>files := [''/tmp/photo.png'' \<mapsto> ''PNG'']\<rparr>) =
     (Inr (Some (stored_photo\<lparr>size_bytes := 5\<rparr>)),
      (new_res Map.empty)\<lparr>files := [''/tmp/photo.png'' \<mapsto> ''OTHER'']\<rparr>)
   \<and> path stored_photo = ''/tmp/photo.png''
   \<and> path (stored_photo\<lparr>size_bytes := 5\<rparr>) = path stored_photo
   \<and> files ((new_res Map.empty)\<lparr>files := [''/tmp/photo.png'' \<mapsto> ''OTHER'']\<rparr>)
        (path stored_photo) = Some ''OTHER''"
proof -
  have a: "upload_single example_env (Some photo_png) (new_res Map.empty) =
     (Inr (Some stored_photo), (new_res Map.empty)\<lparr>files := [''/tmp/photo.png'' \<mapsto> ''PNG'']\<rparr>)"
    by (simp add: upload_single_stored example_env_def photo_png_def stored_photo_def
        fileSize_def)
  have b: "upload_single example_env (Some (photo_png\<lparr>content := ''OTHER''\<rparr>))
        ((new_res Map.empty)\<lparr>files := [''/tmp/photo.png'' \<mapsto> ''PNG'']\<rparr>) =
     (Inr (Some (stored_photo\<lparr>size_bytes := 5\<rparr>)),
      (new_res Map.empty)\<lparr>files := [''/tmp/photo.png'' \<mapsto> ''OTHER'']\<rparr>)"
    by (simp add: upload_single_stored example_env_def photo_png_def stored_photo_def
        fileSize_def)
  have c: "originalname (photo_png\<lparr>content := ''OTHER''\<rparr>) = originalname photo_png"
    by simp
  from C7_stored_under_original_name [OF a b c] a b show ?thesis
    by (simp add: example_env_def photo_png_def)
qed




text \<open>
  Claim C10, as amended: on every request that the upload middleware passes on to the
  handler (with or without a file) and whose awaited extraction settles, by returning or by
  throwing at the \<^verbatim>\<open>await\<close>, the handler sends exactly one response, and it is one of
  three: 400 with the "No file uploaded" envelope, 400 with the "Unknown error occured"
  envelope, or 200 with the success envelope carrying a text. This holds of the handler
  for every such behaviour of the awaited call, and of the route with the adapter as the
  source has it.
\<close>

theorem C10_one_of_three_when_handler_runs:
  assumes "upload_single e part (new_res fs) = (Inr file, s1)"
    and "case file of
           None \<Rightarrow> True
         | Some f \<Rightarrow> settles (extract (path f)) \<and> settles (recognize (path f))"
  shows "(\<exists>r. sent (extract_text_handler_with extract file s1) = [r]
            \<and> (r = (400, [(''success'', JBool False),
                           (''message'',
                            JStr ''No file uploaded. Only jpg and png types accepted'')])
               \<or> r = (400, [(''success'', JBool False),
                              (''message'', JStr ''Unknown error occured'')])
               \<or> (\<exists>text. r = (200, [(''success'', JBool True),
                                      (''message'', JStr ''Image text extracted successfully''),
                                      (''data'', JStr text)]))))
         \<and> (\<exists>r. sent (post_extract_text e recognize part fs) = [r]
            \<and> (r = (400, [(''success'', JBool False),
                           (''message'',
                            JStr ''No file uploaded. Only jpg and png types accepted'')])
               \<or> r = (400, [(''success'', JBool False),
                              (''message'', JStr ''Unknown error occured'')])
               \<or> (\<exists>text. r = (200, [(''success'', JBool True),
                                      (''message'', JStr ''Image text extracted successfully''),
                                      (''data'', JStr text)]))))"
proof -
  from upload_single_res [OF assms(1)]
  have fresh: "sent s1 = []" "statusCode s1 = 200"
    by simp_all
  have single: "\<exists>r. sent (extract_text_handler_with ex file s1) = [r]
            \<and> (r = (400, [(''success'', JBool False),
                           (''message'',
                            JStr ''No file uploaded. Only jpg and png types accepted'')])
               \<or> r = (400, [(''success'', JBool False),
                              (''message'', JStr ''Unknown error occured'')])
               \<or> (\<exists>text. r = (200, [(''success'', JBool True),
                                      (''message'', JStr ''Image text extracted successfully''),
                                      (''data'', JStr text)])))"
    if "case file of None \<Rightarrow> True | Some f \<Rightarrow> settles (ex (path f))" for ex
    using that fresh
    by (auto simp add: handler_sent_cases settles_def no_file_body_def unknown_error_body_def
        success_body_def split: option.splits outcome.splits ocr_result.splits)
  have given: "case file of None \<Rightarrow> True | Some f \<Rightarrow> settles (extract (path f))"
    using assms(2) by (simp split: option.splits)
  have adapter_settles:
    "case file of None \<Rightarrow> True | Some f \<Rightarrow> settles (extractTextFromImage recognize (path f))"
    using assms(2)
    by (auto simp add: extractTextFromImage_def settles_def split: option.splits outcome.splits)
  have runs: "post_extract_text e recognize part fs =
      extract_text_handler_with (extractTextFromImage recognize) file s1"
    using assms(1) by (simp add: post_extract_text_def extract_text_handler_def)
  from single [OF given] single [OF adapter_settles] runs show ?thesis
    by simp
qed

theorem C10_one_of_three_when_handler_runs_witness:
  "upload_single example_env (Some photo_png) (new_res Map.empty) =
     (Inr (Some stored_photo), (new_res Map.empty)\<lparr>files := [''/tmp/photo.png'' \<mapsto> ''PNG'']\<rparr>)
   \<and> settles ((\<lambda>p. Rejected (JsError ''boom'')) (path stored_photo) :: ocr_result outcome)
   \<and> settles ((\<lambda>p. Resolved ''HELLO'') (path stored_photo) :: string outcome)
   \<and> sent (extract_text_handler_with (\<lambda>p. Rejected (JsError ''boom'')) (Some stored_photo)
        ((new_res Map.empty)\<lparr>files := [''/tmp/photo.png'' \<mapsto> ''PNG'']\<rparr>)) =
       [(400, [(''success'', JBool False), (''message'', JStr ''Unknown error occured'')])]
   \<and> sent (post_extract_text example_env (\<lambda>p. Resolved ''HELLO'') (Some photo_png) Map.empty) =
       [(200, [(''success'', JBool True), (''message'', JStr ''Image text extracted successfully''),
               (''data'', JStr ''HELLO'')])]"
proof -
  have a: "upload_single example_env (Some photo_png) (new_res Map.empty) =
     (Inr (Some stored_photo), (new_res Map.empty)\<lparr>files := [''/tmp/photo.png'' \<mapsto> ''PNG'']\<rparr>)"
    by (simp add: upload_single_stored example_env_def photo_png_def stored_photo_def
        fileSize_def)
  have b: "case Some stored_photo of
             None \<Rightarrow> True
           | Some f \<Rightarrow>
               settles ((\<lambda>p. Rejected (JsError ''boom'')) (path f) :: ocr_result outcome)
               \<and> settles ((\<lambda>p. Resolved ''HELLO'') (path f) :: string outcome)"
    by (simp add: settles_def)
  have c: "sent (extract_text_handler_with (\<lambda>p. Rejected (JsError ''boom'')) (Some stored_photo)
        ((new_res Map.empty)\<lparr>files := [''/tmp/photo.png'' \<mapsto> ''PNG'']\<rparr>)) =
       [(400, [(''success'', JBool False), (''message'', JStr ''Unknown error occured'')])]"
    by (simp add: handler_sent_cases unknown_error_body_def)
  have d: "sent (post_extract_text example_env (\<lambda>p. Resolved ''HELLO'') (Some photo_png)
        Map.empty) =
       [(200, [(''success'', JBool True), (''message'', JStr ''Image text extracted successfully''),
               (''data'', JStr ''HELLO'')])]"
    using a
    by (simp add: post_extract_text_def extract_text_handler_def handler_sent_cases
        extractTextFromImage_def success_body_def)
  from C10_one_of_three_when_handler_runs [OF a b] a b c d show ?thesis
    by simp
qed

text \<open>
  The claim as it was stated has every request to the route answered by the handler with
  one of the three envelopes. A JPEG of 5 MiB and one byte is answered otherwise: the
  upload middleware passes its error on, the handler does not run, and the one response
  of the route is the 500 envelope of the error middleware.
\<close>

theorem C10_route_answers_500_counterexample:
  "fst (upload_single example_env (Some big_jpeg) (new_res Map.empty)) =
     Inl (JsError ''File too large'')
   \<and> sent (post_extract_text example_env (\<lambda>p. Resolved ''HELLO'') (Some big_jpeg) Map.empty) =
       [(500, [(''success'', JBool False), (''status'', JNum 500),
               (''message'', JStr ''File too large'')])]"
  by (simp add: post_extract_text_def upload_single_too_large big_jpeg_def fileSize_def
      error_middleware_def sent_send_status)

section \<open>The demo endpoint\<close>

text \<open>
  Claim C9: \<^verbatim>\<open>GET /api\<close> answers 200 with
  \<^verbatim>\<open>{message:"Demo API called (httpbin.org)", data:<status>}\<close>, the data being the
  numeric upstream status, when the outbound call succeeds, and 500 with
  \<^verbatim>\<open>{error:"Failed to call external API"}\<close> when it fails.
\<close>

theorem C9_get_api_200_or_500:
  "sent (get_api (Inr n) (new_res fs)) =
     [(200, [(''message'', JStr ''Demo API called (httpbin.org)''), (''data'', JNum n)])]
   \<and> sent (get_api (Inl error) (new_res fs)) =
     [(500, [(''error'', JStr ''Failed to call external API'')])]"
  by (simp add: get_api_def sent_send sent_send_status)

end
